theory Spec2Isabelle
  imports Complex_Main
begin

section \<open>The notebooks as data\<close>

text \<open>
  The repository consists of two Jupyter notebooks, the PyTorch tutorial and the
  TensorFlow tutorial (\<^verbatim>\<open>03_ready_to_use_model_tf.ipynb\<close>). Neither defines a function:
  each is a sequence of code cells holding Python statements, most of them method chains
  on a pipeline object, together with the outputs recorded when the cell was executed.
  The embedding is therefore the abstract syntax of the code cells and their recorded
  outputs; markdown cells are left out.
\<close>

subsection \<open>Python expressions occurring as arguments\<close>

text \<open>
  \<open>B\<close>, \<open>C\<close>, \<open>D\<close>, \<open>F\<close>, \<open>V\<close> are the named expressions imported from \<^verbatim>\<open>batchflow\<close>
  in the first cell. \<open>Named t n kw\<close> is the Python expression \<^verbatim>\<open>t(n, **kw)\<close>, for
  instance \<^verbatim>\<open>V('metrics', mode='w')\<close>; \<open>Name\<close> is a bare Python identifier.
\<close>

datatype token = B | C | D | F | V

datatype expr =
    Str string
  | Num int
  | Bool bool
  | NoneV
  | Name string
  | Named token string "(string \<times> expr) list"
  | Dict "(string \<times> expr) list"
  | ListE "expr list"

text \<open>A method call \<^verbatim>\<open>.name(*args, **kwargs)\<close>, arguments in the order written.\<close>

datatype call = Call (cname: string) (args: "expr list") (kwargs: "(string \<times> expr) list")

text \<open>
  What a method chain starts from: a literal, a dotted name such as
  \<^verbatim>\<open>dataset.test.p\<close>, a constructor call with keyword arguments such as
  \<^verbatim>\<open>Pipeline(config=config)\<close>, or \<^verbatim>\<open>a << b\<close> on two dotted names.
\<close>

datatype receiver =
    Lit expr
  | Var "string list"
  | Construct string "(string \<times> expr) list"
  | Lshift "string list" "string list"

datatype chain = Chain (receiver: receiver) (calls: "call list")

datatype stmt =
    Import string
  | From_import string "string list"
  | Assign string chain
  | Expr chain

subsection \<open>Recorded outputs and cells\<close>

text \<open>
  A progress bar written to stderr is kept as its counter \<open>done/total\<close>; a printed
  floating-point number is read as the decimal fraction that was printed.
\<close>

datatype result =
    Repr string
  | Scalar rat
  | Mapping "(string \<times> rat list) list"

datatype cell_output =
    Stderr_progress nat nat
  | Stdout string
  | Execute_result result

record cell =
  execution_count :: nat
  source :: "stmt list"
  outputs :: "cell_output list"

type_synonym notebook = "cell list"

subsection \<open>The PyTorch notebook\<close>

definition torch_train_template :: chain where
  "torch_train_template = Chain (Construct ''Pipeline'' [(''config'', Name ''config'')])
     [Call ''init_variable'' [Str ''loss_history''] [(''init_on_each_run'', Name ''list'')],
      Call ''init_variable'' [Str ''current_loss''] [],
      Call ''init_model'' [Str ''dynamic'', Named C ''model'' [], Str ''conv_nn'']
        [(''config'', Dict [(''inputs/images/shape'', Named B ''image_shape'' []),
                            (''inputs/labels/classes'', Named D ''num_classes'' []),
                            (''initial_block/inputs'', Str ''images'')])],
      Call ''to_array'' [] [(''channels'', Str ''first''), (''dtype'', Str ''float32'')],
      Call ''train_model'' [Str ''conv_nn'', Named B ''images'' [], Named B ''labels'' []]
        [(''fetches'', Str ''loss''), (''save_to'', Named V ''current_loss'' []),
         (''use_lock'', Bool True)],
      Call ''update_variable''
        [Str ''loss_history'', Named V ''current_loss'' [(''mode'', Str ''a'')]] []]"

definition torch_test_pipeline :: chain where
  "torch_test_pipeline = Chain (Var [''dataset'', ''test'', ''p''])
     [Call ''import_model'' [Str ''conv_nn'', Name ''train_pipeline''] [],
      Call ''init_variable'' [Str ''predictions''] [],
      Call ''init_variable'' [Str ''metrics''] [(''init_on_each_run'', NoneV)],
      Call ''to_array'' [] [(''channels'', Str ''first''), (''dtype'', Str ''float32'')],
      Call ''predict_model'' [Str ''conv_nn'', Named B ''images'' []]
        [(''fetches'', Str ''predictions''), (''save_to'', Named V ''predictions'' [])],
      Call ''gather_metrics'' [Str ''class'']
        [(''targets'', Named B ''labels'' []), (''predictions'', Named V ''predictions'' []),
         (''fmt'', Str ''logits''), (''axis'', Num (- 1)),
         (''save_to'', Named V ''metrics'' [(''mode'', Str ''w'')])],
      Call ''run'' [Name ''BATCH_SIZE'']
        [(''shuffle'', Bool True), (''n_epochs'', Num 1), (''drop_last'', Bool False),
         (''bar'', Bool True)]]"

definition torch_notebook :: notebook where
  "torch_notebook =
   [\<lparr>execution_count = 1,
     source =
       [Import ''os'', Import ''sys'', Import ''warnings'',
        Expr (Chain (Var [''warnings'']) [Call ''filterwarnings'' [Str ''ignore''] []]),
        Import ''numpy'',
        Expr (Chain (Var [''sys'', ''path'']) [Call ''append'' [Str ''../..''] []]),
        From_import ''batchflow'' [''Pipeline'', ''B'', ''C'', ''D'', ''F'', ''V''],
        From_import ''batchflow.opensets'' [''MNIST'', ''CIFAR10'', ''CIFAR100''],
        From_import ''batchflow.models.torch'' [''VGG7'']],
     outputs = []\<rparr>,
    \<lparr>execution_count = 2,
     source = [Assign ''BATCH_SIZE'' (Chain (Lit (Num 64)) [])],
     outputs = []\<rparr>,
    \<lparr>execution_count = 3,
     source = [Assign ''dataset'' (Chain (Construct ''MNIST'' [(''bar'', Bool True)]) [])],
     outputs = [Stderr_progress 8 8]\<rparr>,
    \<lparr>execution_count = 4,
     source = [Assign ''config'' (Chain (Construct ''dict'' [(''model'', Name ''VGG7'')]) [])],
     outputs = []\<rparr>,
    \<lparr>execution_count = 5,
     source = [Assign ''train_template'' torch_train_template],
     outputs = []\<rparr>,
    \<lparr>execution_count = 6,
     source = [Assign ''train_pipeline''
                (Chain (Lshift [''train_template''] [''dataset'', ''train'']) [])],
     outputs = []\<rparr>,
    \<lparr>execution_count = 7,
     source = [Expr (Chain (Var [''train_pipeline''])
                [Call ''run'' [Name ''BATCH_SIZE'']
                   [(''shuffle'', Bool True), (''n_epochs'', Num 1), (''drop_last'', Bool True),
                    (''bar'', Bool True), (''prefetch'', Num 1)]])],
     outputs = [Stderr_progress 937 937,
                Execute_result (Repr ''<batchflow.pipeline.Pipeline at 0x7f46146e4390>'')]\<rparr>,
    \<lparr>execution_count = 8,
     source = [Assign ''test_pipeline'' torch_test_pipeline],
     outputs = [Stderr_progress 156 157]\<rparr>,
    \<lparr>execution_count = 9,
     source = [Assign ''metrics''
                (Chain (Var [''test_pipeline'']) [Call ''get_variable'' [Str ''metrics''] []])],
     outputs = []\<rparr>,
    \<lparr>execution_count = 10,
     source = [Expr (Chain (Var [''metrics'']) [Call ''evaluate'' [Str ''accuracy''] []])],
     outputs = [Execute_result (Scalar 1.0)]\<rparr>,
    \<lparr>execution_count = 11,
     source = [Expr (Chain (Var [''metrics''])
                [Call ''evaluate''
                   [ListE [Str ''false_positive_rate'', Str ''false_negative_rate'']]
                   [(''multiclass'', NoneV)]])],
     outputs = [Execute_result (Mapping
                 [(''false_negative_rate'', [0, 0, 0, 0, 0, 0, 0, 0, 0, 0]),
                  (''false_positive_rate'', [0, 0, 0, 0, 0, 0, 0, 0, 0, 0])])]\<rparr>,
    \<lparr>execution_count = 12,
     source = [Expr (Chain (Var [''train_pipeline''])
                [Call ''save_model_now'' [Str ''conv_nn'']
                   [(''path'', Str ''path/to/model.torch'')]])],
     outputs = []\<rparr>]"

subsection \<open>The TensorFlow notebook\<close>

definition tf_train_template :: chain where
  "tf_train_template = Chain (Construct ''Pipeline'' [(''config'', Name ''config'')])
     [Call ''init_variable'' [Str ''loss_history''] [(''init_on_each_run'', Name ''list'')],
      Call ''init_variable'' [Str ''current_loss''] [],
      Call ''init_model'' [Str ''dynamic'', Named C ''model'' [], Str ''conv_nn'']
        [(''config'', Dict [(''inputs/images/shape'', Named B ''image_shape'' []),
                            (''inputs/labels/classes'', Named D ''num_classes'' []),
                            (''initial_block/inputs'', Str ''images'')])],
      Call ''to_array'' [] [],
      Call ''train_model'' [Str ''conv_nn'']
        [(''fetches'', Str ''loss''), (''images'', Named B ''images'' []),
         (''labels'', Named B ''labels'' []), (''save_to'', Named V ''current_loss'' [])],
      Call ''update_variable''
        [Str ''loss_history'', Named V ''current_loss'' [(''mode'', Str ''a'')]] []]"

definition tf_test_pipeline :: chain where
  "tf_test_pipeline = Chain (Var [''dataset'', ''test'', ''p''])
     [Call ''import_model'' [Str ''conv_nn'', Name ''train_pipeline''] [],
      Call ''init_variable'' [Str ''predictions''] [],
      Call ''init_variable'' [Str ''metrics''] [(''init_on_each_run'', NoneV)],
      Call ''to_array'' [] [],
      Call ''predict_model'' [Str ''conv_nn'']
        [(''fetches'', Str ''predictions''), (''images'', Named B ''images'' []),
         (''save_to'', Named V ''predictions'' [])],
      Call ''gather_metrics'' [Str ''class'']
        [(''targets'', Named B ''labels'' []), (''predictions'', Named V ''predictions'' []),
         (''fmt'', Str ''logits''), (''axis'', Num (- 1)),
         (''save_to'', Named V ''metrics'' [(''mode'', Str ''a'')])],
      Call ''run'' [Name ''BATCH_SIZE'']
        [(''shuffle'', Bool True), (''n_epochs'', Num 1), (''drop_last'', Bool False),
         (''bar'', Bool True)]]"

definition tf_notebook :: notebook where
  "tf_notebook =
   [\<lparr>execution_count = 1,
     source =
       [Import ''os'', Import ''sys'', Import ''warnings'',
        Expr (Chain (Var [''warnings'']) [Call ''filterwarnings'' [Str ''ignore''] []]),
        Import ''numpy'',
        Expr (Chain (Var [''sys'', ''path'']) [Call ''append'' [Str ''../..''] []]),
        From_import ''batchflow'' [''Pipeline'', ''B'', ''C'', ''D'', ''F'', ''V''],
        From_import ''batchflow.opensets'' [''MNIST'', ''CIFAR10'', ''CIFAR100''],
        From_import ''batchflow.models.tf'' [''ResNet18'']],
     outputs = []\<rparr>,
    \<lparr>execution_count = 2,
     source = [Assign ''BATCH_SIZE'' (Chain (Lit (Num 64)) [])],
     outputs = []\<rparr>,
    \<lparr>execution_count = 3,
     source = [Assign ''dataset'' (Chain (Construct ''MNIST'' [(''bar'', Bool True)]) [])],
     outputs = [Stderr_progress 8 8]\<rparr>,
    \<lparr>execution_count = 4,
     source = [Assign ''config''
                (Chain (Construct ''dict'' [(''model'', Name ''ResNet18'')]) [])],
     outputs = []\<rparr>,
    \<lparr>execution_count = 5,
     source = [Assign ''train_template'' tf_train_template],
     outputs = []\<rparr>,
    \<lparr>execution_count = 6,
     source = [Assign ''train_pipeline''
                (Chain (Lshift [''train_template''] [''dataset'', ''train'']) [])],
     outputs = []\<rparr>,
    \<lparr>execution_count = 7,
     source = [Expr (Chain (Var [''train_pipeline''])
                [Call ''run'' [Name ''BATCH_SIZE'']
                   [(''shuffle'', Bool True), (''n_epochs'', Num 1), (''drop_last'', Bool True),
                    (''bar'', Bool True), (''prefetch'', Num 1)]])],
     outputs = [Stderr_progress 937 937,
                Execute_result (Repr ''<batchflow.pipeline.Pipeline at 0x7f27a1a36b70>'')]\<rparr>,
    \<lparr>execution_count = 8,
     source = [Assign ''test_pipeline'' tf_test_pipeline],
     outputs = [Stderr_progress 156 157]\<rparr>,
    \<lparr>execution_count = 9,
     source = [Assign ''metrics''
                (Chain (Var [''test_pipeline'']) [Call ''get_variable'' [Str ''metrics''] []])],
     outputs = []\<rparr>,
    \<lparr>execution_count = 10,
     source = [Expr (Chain (Var [''metrics'']) [Call ''evaluate'' [Str ''accuracy''] []])],
     outputs = [Execute_result (Scalar 0.9671576433121019)]\<rparr>,
    \<lparr>execution_count = 11,
     source = [Expr (Chain (Var [''metrics''])
                [Call ''evaluate''
                   [ListE [Str ''false_positive_rate'', Str ''false_negative_rate'']]
                   [(''multiclass'', NoneV)]])],
     outputs = [Execute_result (Mapping
                 [(''false_negative_rate'',
                     [0.00398089, 0, 0.05910263, 0.02296624, 0.02156529,
                      0.02501792, 0.01466485, 0.03667444, 0.13852718, 0.01652581]),
                  (''false_positive_rate'',
                     [0.01185107, 0.00326121, 0.00045192, 0.0008677, 0.0014349,
                      0.00203828, 0.0086646, 0.00178542, 0.00054209, 0.00543])])]\<rparr>,
    \<lparr>execution_count = 12,
     source = [Expr (Chain (Var [''train_pipeline''])
                [Call ''save_model_now'' [Str ''conv_nn''] [(''path'', Str ''path/to/save'')]])],
     outputs = [Stdout '''']\<rparr>]"

definition notebooks :: "notebook list" where
  "notebooks = [torch_notebook, tf_notebook]"

section \<open>Reading the notebooks\<close>

definition stmts :: "notebook \<Rightarrow> stmt list" where
  "stmts nb = concat (map source nb)"

fun chain_of :: "stmt \<Rightarrow> chain list" where
  "chain_of (Assign x c) = [c]"
| "chain_of (Expr c) = [c]"
| "chain_of _ = []"

definition chains_of :: "notebook \<Rightarrow> chain list" where
  "chains_of nb = concat (map chain_of (stmts nb))"

text \<open>The right-hand sides assigned to a Python variable.\<close>

fun assigned :: "string \<Rightarrow> stmt \<Rightarrow> chain list" where
  "assigned x (Assign y c) = (if x = y then [c] else [])"
| "assigned x _ = []"

definition bound_to :: "string \<Rightarrow> notebook \<Rightarrow> chain list" where
  "bound_to x nb = concat (map (assigned x) (stmts nb))"

text \<open>
  A pipeline definition is a chain that starts from a fresh pipeline: the constructor
  \<^verbatim>\<open>Pipeline(...)\<close> or the \<^verbatim>\<open>.p\<close> attribute of a dataset split.
\<close>

fun is_pipeline :: "receiver \<Rightarrow> bool" where
  "is_pipeline (Construct n kw) = (n = ''Pipeline'')"
| "is_pipeline (Var p) = (p \<noteq> [] \<and> last p = ''p'')"
| "is_pipeline _ = False"

definition pipeline_definitions :: "notebook \<Rightarrow> chain list" where
  "pipeline_definitions nb = filter (\<lambda>c. is_pipeline (receiver c)) (chains_of nb)"

definition has_step :: "string \<Rightarrow> chain \<Rightarrow> bool" where
  "has_step n c = (n \<in> set (map cname (calls c)))"

text \<open>
  The declared steps of a chain: every call but \<^verbatim>\<open>run\<close>, which executes the pipeline
  instead of adding a step to it.
\<close>

definition steps :: "chain \<Rightarrow> call list" where
  "steps c = filter (\<lambda>s. cname s \<noteq> ''run'') (calls c)"

definition step_names :: "chain \<Rightarrow> string list" where
  "step_names c = map cname (steps c)"

definition steps_named :: "string \<Rightarrow> notebook \<Rightarrow> call list" where
  "steps_named n nb =
     filter (\<lambda>s. cname s = n) (concat (map calls (pipeline_definitions nb)))"

definition calls_on :: "string list \<Rightarrow> notebook \<Rightarrow> call list" where
  "calls_on r nb = concat (map calls (filter (\<lambda>c. receiver c = Var r) (chains_of nb)))"

definition run_calls :: "notebook \<Rightarrow> call list" where
  "run_calls nb = filter (\<lambda>s. cname s = ''run'') (concat (map calls (chains_of nb)))"

definition train_runs :: "notebook \<Rightarrow> call list" where
  "train_runs nb = filter (\<lambda>s. cname s = ''run'') (calls_on [''train_pipeline''] nb)"

definition test_runs :: "notebook \<Rightarrow> call list" where
  "test_runs nb =
     filter (\<lambda>s. cname s = ''run'') (concat (map calls (bound_to ''test_pipeline'' nb)))"

definition kwarg :: "string \<Rightarrow> call \<Rightarrow> expr option" where
  "kwarg k c = map_of (kwargs c) k"

definition keywords_within :: "string list \<Rightarrow> call \<Rightarrow> bool" where
  "keywords_within ps c = list_all (\<lambda>k. k \<in> set ps) (map fst (kwargs c))"

text \<open>The execution counts of the cells holding a chain that satisfies \<open>P\<close>.\<close>

definition cells_where :: "(chain \<Rightarrow> bool) \<Rightarrow> notebook \<Rightarrow> nat list" where
  "cells_where P nb =
     map execution_count (filter (\<lambda>cl. list_ex P (concat (map chain_of (source cl)))) nb)"

definition invokes :: "string list \<Rightarrow> string \<Rightarrow> chain \<Rightarrow> bool" where
  "invokes r n c = (receiver c = Var r \<and> has_step n c)"

definition all_before :: "nat list \<Rightarrow> nat list \<Rightarrow> bool" where
  "all_before xs ys = list_all (\<lambda>i. list_all (\<lambda>j. i < j) ys) xs"

section \<open>What the specification says of the notebooks\<close>

text \<open>The parameters of the entry point \<^verbatim>\<open>run\<close> as the specification lists them.\<close>

definition run_parameters :: "string list" where
  "run_parameters =
     [''batch_size'', ''shuffle'', ''n_epochs'', ''drop_last'', ''prefetch'', ''progress_bar'']"

text \<open>The operations of the pipeline library as the specification lists them.\<close>

definition spec_operations :: "string list" where
  "spec_operations =
     [''init_variable'', ''init_model'', ''train_model'', ''predict_model'',
      ''gather_metrics'', ''evaluate'', ''save_model_now'']"

text \<open>
  The order of steps the specification gives: variable initialization, model initialization
  or import, array conversion, the train or predict step, metrics gathering. A chain is in
  that order when the ranks of its steps never decrease.
\<close>

definition claimed_phase :: "string \<Rightarrow> nat option" where
  "claimed_phase n =
     (if n = ''init_variable'' then Some 0
      else if n = ''init_model'' \<or> n = ''import_model'' then Some 1
      else if n = ''to_array'' then Some 2
      else if n = ''train_model'' \<or> n = ''predict_model'' then Some 3
      else if n = ''gather_metrics'' then Some 4
      else None)"

definition in_claimed_order :: "chain \<Rightarrow> bool" where
  "in_claimed_order c = sorted (List.map_filter claimed_phase (step_names c))"

subsection \<open>Arguments of the declared steps\<close>

definition arguments :: "chain \<Rightarrow> expr list" where
  "arguments c = concat (map (\<lambda>s. args s @ map snd (kwargs s)) (steps c))"

text \<open>The named expressions inside an argument, each with the name it defers to.\<close>

fun placeholders :: "expr \<Rightarrow> (token \<times> string) list" where
  "placeholders (Named t n kw) = (t, n) # concat (map (\<lambda>kv. placeholders (snd kv)) kw)"
| "placeholders (Dict kvs) = concat (map (\<lambda>kv. placeholders (snd kv)) kvs)"
| "placeholders (ListE xs) = concat (map placeholders xs)"
| "placeholders _ = []"

text \<open>The bare Python identifiers inside an argument.\<close>

fun identifiers :: "expr \<Rightarrow> string list" where
  "identifiers (Name x) = [x]"
| "identifiers (Named t n kw) = concat (map (\<lambda>kv. identifiers (snd kv)) kw)"
| "identifiers (Dict kvs) = concat (map (\<lambda>kv. identifiers (snd kv)) kvs)"
| "identifiers (ListE xs) = concat (map identifiers xs)"
| "identifiers _ = []"


text \<open>The steps that name the model \<^verbatim>\<open>'conv_nn'\<close> among their positional arguments.\<close>

definition model_steps :: "chain \<Rightarrow> call list" where
  "model_steps c = filter (\<lambda>s. Str ''conv_nn'' \<in> set (args s)) (steps c)"

subsection \<open>Recorded metrics\<close>

fun result_of :: "cell_output \<Rightarrow> result list" where
  "result_of (Execute_result r) = [r]"
| "result_of _ = []"

definition evaluate_args :: "chain \<Rightarrow> expr list list" where
  "evaluate_args c =
     (if receiver c = Var [''metrics'']
      then map args (filter (\<lambda>s. cname s = ''evaluate'') (calls c)) else [])"

text \<open>
  Every \<^verbatim>\<open>metrics.evaluate(...)\<close> of a notebook: its positional arguments and the
  results recorded for its cell.
\<close>

definition evaluations :: "notebook \<Rightarrow> (expr list \<times> result list) list" where
  "evaluations nb =
     concat (map (\<lambda>cl. map (\<lambda>a. (a, concat (map result_of (outputs cl))))
                          (concat (map evaluate_args (concat (map chain_of (source cl))))))
                 nb)"

fun values_of :: "result \<Rightarrow> rat list" where
  "values_of (Scalar v) = [v]"
| "values_of (Mapping m) = concat (map snd m)"
| "values_of (Repr t) = []"

definition metric_values :: "notebook \<Rightarrow> rat list" where
  "metric_values nb = concat (map (\<lambda>e. concat (map values_of (snd e))) (evaluations nb))"

definition in_unit :: "rat \<Rightarrow> bool" where
  "in_unit v = (0 \<le> v \<and> v \<le> 1)"

subsection \<open>Cells and steps by name\<close>


text \<open>The steps of a chain with the name \<open>n\<close>.\<close>

definition steps_of :: "string \<Rightarrow> chain \<Rightarrow> call list" where
  "steps_of n c = filter (\<lambda>s. cname s = n) (steps c)"


section \<open>Training pipelines\<close>


text \<open>A step is configured with the lock when it passes \<^verbatim>\<open>use_lock=True\<close>.\<close>

definition locked :: "call \<Rightarrow> bool" where
  "locked s = (kwarg ''use_lock'' s = Some (Bool True))"

section \<open>Unfolding and helper lemmas\<close>

lemmas notebook_defs = notebooks_def torch_notebook_def tf_notebook_def
  torch_train_template_def torch_test_pipeline_def tf_train_template_def tf_test_pipeline_def

lemmas reader_defs = stmts_def chains_of_def bound_to_def pipeline_definitions_def has_step_def
  steps_def step_names_def steps_named_def calls_on_def run_calls_def train_runs_def
  test_runs_def kwarg_def keywords_within_def cells_where_def invokes_def all_before_def

section \<open>The claims\<close>

subsection \<open>C1: the arguments of run\<close>

text \<open>
  C1, as stated, fails: the training run of the PyTorch notebook passes the keyword
  \<^verbatim>\<open>bar\<close>, which is not among the six parameter names the specification lists
  (it lists \<^verbatim>\<open>progress_bar\<close>).
\<close>

theorem run_keyword_bar_counterexample:
  "Call ''run'' [Name ''BATCH_SIZE'']
     [(''shuffle'', Bool True), (''n_epochs'', Num 1), (''drop_last'', Bool True),
      (''bar'', Bool True), (''prefetch'', Num 1)] \<in> set (run_calls torch_notebook)
   \<and> \<not> keywords_within run_parameters
        (Call ''run'' [Name ''BATCH_SIZE'']
          [(''shuffle'', Bool True), (''n_epochs'', Num 1), (''drop_last'', Bool True),
           (''bar'', Bool True), (''prefetch'', Num 1)])"
  by (simp add: notebook_defs reader_defs run_parameters_def)

text \<open>
  C1, amended: in both notebooks the calls of \<^verbatim>\<open>run\<close> are the one training run and the
  one test run; each passes the batch size as its only positional argument
  (\<^verbatim>\<open>BATCH_SIZE\<close>, assigned 64) and keyword arguments, each at most once, among
  \<^verbatim>\<open>shuffle\<close>, \<^verbatim>\<open>n_epochs\<close>, \<^verbatim>\<open>drop_last\<close>, \<^verbatim>\<open>prefetch\<close> and \<^verbatim>\<open>bar\<close>.
\<close>

theorem run_calls_arguments:
  "list_all (\<lambda>nb.
      run_calls nb = train_runs nb @ test_runs nb
    \<and> length (train_runs nb) = 1 \<and> length (test_runs nb) = 1
    \<and> bound_to ''BATCH_SIZE'' nb = [Chain (Lit (Num 64)) []]
    \<and> list_all (\<lambda>r. args r = [Name ''BATCH_SIZE'']
                   \<and> distinct (map fst (kwargs r))
                   \<and> keywords_within
                       [''shuffle'', ''n_epochs'', ''drop_last'', ''prefetch'', ''bar''] r)
         (run_calls nb)) notebooks"
  by (simp add: notebook_defs reader_defs)

subsection \<open>C2: one epoch of training, then metrics, then saving\<close>



subsection \<open>C3: the order of the declared steps\<close>

text \<open>
  C3, as stated, fails: the test pipeline of the PyTorch notebook declares
  \<^verbatim>\<open>import_model\<close> before its two \<^verbatim>\<open>init_variable\<close> steps, so the model import does
  not come after variable initialization.
\<close>

theorem import_before_init_counterexample:
  "torch_test_pipeline \<in> set (pipeline_definitions torch_notebook)
   \<and> \<not> in_claimed_order torch_test_pipeline"
  by (simp add: notebook_defs reader_defs in_claimed_order_def claimed_phase_def
      List.map_filter_simps)

text \<open>
  C3, amended: each notebook assembles two pipelines. The training template declares
  variable initialization (twice), model initialization, \<^verbatim>\<open>to_array\<close>,
  \<^verbatim>\<open>train_model\<close> and then \<^verbatim>\<open>update_variable\<close>, with no metrics gathering; the test
  pipeline declares the model import first, then variable initialization (twice),
  \<^verbatim>\<open>to_array\<close>, \<^verbatim>\<open>predict_model\<close> and \<^verbatim>\<open>gather_metrics\<close>. Every named expression
  among the arguments of these steps is a \<open>B\<close>, \<open>C\<close>, \<open>D\<close> or \<open>V\<close>, and the only bare
  identifiers passed are \<^verbatim>\<open>list\<close> (training template) and \<^verbatim>\<open>train_pipeline\<close>
  (test pipeline): everything else is a literal.
\<close>

theorem pipeline_step_order:
  "list_all (\<lambda>nb.
      map step_names (pipeline_definitions nb)
        = [[''init_variable'', ''init_variable'', ''init_model'', ''to_array'',
            ''train_model'', ''update_variable''],
           [''import_model'', ''init_variable'', ''init_variable'', ''to_array'',
            ''predict_model'', ''gather_metrics'']]
    \<and> list_all (\<lambda>c. list_all (\<lambda>p. fst p \<in> set [B, C, D, V])
                       (concat (map placeholders (arguments c))))
         (pipeline_definitions nb)
    \<and> map (\<lambda>c. concat (map identifiers (arguments c))) (pipeline_definitions nb)
        = [[''list''], [''train_pipeline'']]) notebooks"
  by (simp add: notebook_defs reader_defs arguments_def)

subsection \<open>C4: the operations invoked on a pipeline\<close>

text \<open>
  C4, as stated, fails: the training template of the PyTorch notebook has the step
  \<^verbatim>\<open>to_array\<close>, which is not one of the seven operations the specification lists.
\<close>

theorem to_array_not_listed_counterexample:
  "torch_train_template \<in> set (pipeline_definitions torch_notebook)
   \<and> ''to_array'' \<in> set (map cname (calls torch_train_template))
   \<and> ''to_array'' \<notin> set spec_operations"
  by (simp add: notebook_defs reader_defs spec_operations_def)

text \<open>
  C4, amended: every call in a pipeline definition of the notebooks is one of the seven
  listed operations or one of \<^verbatim>\<open>import_model\<close>, \<^verbatim>\<open>to_array\<close>, \<^verbatim>\<open>update_variable\<close>
  and \<^verbatim>\<open>run\<close>.
\<close>

theorem pipeline_steps_are_library_calls:
  "list_all (\<lambda>nb. list_all (\<lambda>c.
      list_all (\<lambda>n. n \<in> set (spec_operations
                   @ [''import_model'', ''to_array'', ''update_variable'', ''run'']))
        (map cname (calls c))) (pipeline_definitions nb)) notebooks"
  by (simp add: notebook_defs reader_defs spec_operations_def)

subsection \<open>C6: the recorded metrics lie between 0 and 1\<close>

text \<open>
  C6: in both notebooks the recorded accuracy and every recorded per-class false positive
  and false negative rate (21 numbers in each notebook) lie in the closed interval from
  0 to 1.
\<close>

theorem recorded_metrics_in_unit_interval:
  "list_all (\<lambda>nb. length (metric_values nb) = 21 \<and> list_all in_unit (metric_values nb))
     notebooks"
  by (simp add: notebook_defs reader_defs evaluations_def evaluate_args_def metric_values_def
      in_unit_def)

subsection \<open>C7: the lock of the training step\<close>

text \<open>
  C7, as stated, fails on its code side: the only \<^verbatim>\<open>train_model\<close> step of the
  TensorFlow notebook passes no \<^verbatim>\<open>use_lock\<close> argument.
\<close>

theorem tf_train_model_without_use_lock_counterexample:
  "steps_named ''train_model'' tf_notebook
     = [Call ''train_model'' [Str ''conv_nn'']
         [(''fetches'', Str ''loss''), (''images'', Named B ''images'' []),
          (''labels'', Named B ''labels'' []), (''save_to'', Named V ''current_loss'' [])]]
   \<and> \<not> locked (Call ''train_model'' [Str ''conv_nn'']
         [(''fetches'', Str ''loss''), (''images'', Named B ''images'' []),
          (''labels'', Named B ''labels'' []), (''save_to'', Named V ''current_loss'' [])])"
  by (simp add: notebook_defs reader_defs locked_def)

text \<open>
  C7, amended: the \<^verbatim>\<open>train_model\<close> step is configured with \<^verbatim>\<open>use_lock=True\<close> in the
  training pipeline of the PyTorch notebook; the \<^verbatim>\<open>train_model\<close> step of the
  TensorFlow notebook has no \<^verbatim>\<open>use_lock\<close> argument.
\<close>

theorem use_lock_in_torch_only:
  "map locked (steps_named ''train_model'' torch_notebook) = [True]
   \<and> map (kwarg ''use_lock'') (steps_named ''train_model'' tf_notebook) = [None]"
  by (simp add: notebook_defs reader_defs locked_def)

subsection \<open>C9: the loss history\<close>



section \<open>Further facts about the notebooks\<close>

text \<open>
  The test pipeline of either notebook declares no \<^verbatim>\<open>train_model\<close> and no
  \<^verbatim>\<open>init_model\<close> step; the steps that name the model \<^verbatim>\<open>'conv_nn'\<close> are
  \<^verbatim>\<open>import_model('conv_nn', train_pipeline)\<close> and \<^verbatim>\<open>predict_model\<close>.
\<close>

lemma test_pipeline_structure:
  "list_all (\<lambda>nb.
      length (bound_to ''test_pipeline'' nb) = 1
    \<and> list_all (\<lambda>p.
          \<not> has_step ''train_model'' p \<and> \<not> has_step ''init_model'' p
        \<and> map cname (model_steps p) = [''import_model'', ''predict_model'']
        \<and> map args (steps_of ''import_model'' p) = [[Str ''conv_nn'', Name ''train_pipeline'']])
        (bound_to ''test_pipeline'' nb)) notebooks"
  by (simp add: notebook_defs reader_defs steps_of_def model_steps_def)

text \<open>
  The one training run of either notebook passes \<^verbatim>\<open>drop_last=True\<close>, the one test run
  \<^verbatim>\<open>drop_last=False\<close>; the progress bars recorded for them count 937 and 157 batches.
\<close>

lemma drop_last_flags:
  "list_all (\<lambda>nb.
      map (kwarg ''drop_last'') (train_runs nb) = [Some (Bool True)]
    \<and> map (kwarg ''drop_last'') (test_runs nb) = [Some (Bool False)]
    \<and> map outputs (filter (\<lambda>cl. execution_count cl = 7) nb)
        = map outputs (filter (\<lambda>cl. list_ex (invokes [''train_pipeline''] ''run'')
                                        (concat (map chain_of (source cl)))) nb)
    \<and> map (take 1 \<circ> outputs) (filter (\<lambda>cl. execution_count cl = 7) nb)
        = [[Stderr_progress 937 937]]
    \<and> map outputs (filter (\<lambda>cl. execution_count cl = 8) nb) = [[Stderr_progress 156 157]])
     notebooks"
  by (simp add: notebook_defs reader_defs)

end
